theory Spec2Isabelle
  imports Complex_Main "HOL-Library.Multiset"
begin

section \<open>Numbers and dictionaries\<close>

text \<open>
  The competition analysis of \<^verbatim>\<open>src/simple_seo_brief.py\<close> computes with Python numbers:
  integers from the data provider, and floats as soon as a true division \<^verbatim>\<open>/\<close> or the
  literals \<^verbatim>\<open>1.1\<close>, \<^verbatim>\<open>1.2\<close> are involved. The embedding computes over the rationals: every
  arithmetic operation is exact and the literals \<^verbatim>\<open>1.1\<close> and \<^verbatim>\<open>1.2\<close> are \<open>11/10\<close> and \<open>12/10\<close>.
  The binary rounding of IEEE doubles is therefore not part of the model (neither are NaN
  and the infinities), with one exception: the recommended word counts of lines 595 to 603
  are also given in double precision below, since there the rounding changes a result.

  \<^verbatim>\<open>int(x)\<close> truncates towards zero. \<^verbatim>\<open>round(x, 1)\<close> gives the nearest number with one
  decimal place, the even neighbour when \<open>x\<close> lies exactly half way. Python decides this on
  the binary value of the double, so a decimal tie that no double equals (0.45, say) is a
  tie in the model only; the concrete inputs evaluated below involve no tie.
\<close>

definition int_trunc :: "rat \<Rightarrow> int" where
  "int_trunc x = (if 0 \<le> x then \<lfloor>x\<rfloor> else \<lceil>x\<rceil>)"

definition round_half_even :: "rat \<Rightarrow> int" where
  "round_half_even x =
     (let f = \<lfloor>x\<rfloor>; d = x - of_int f
      in if d < 1 / 2 then f
         else if 1 / 2 < d then f + 1
         else if even f then f else f + 1)"

definition round1 :: "rat \<Rightarrow> rat" where
  "round1 x = of_int (round_half_even (x * 10)) / 10"

text \<open>
  \<^verbatim>\<open>d.get(k, dflt)\<close>: on a dictionary with arbitrary keys, a partial map, and on a
  dictionary with fixed keys, a record whose fields are optional.
\<close>

definition or_default :: "'v option \<Rightarrow> 'v \<Rightarrow> 'v" where
  "or_default v dflt = (case v of None \<Rightarrow> dflt | Some x \<Rightarrow> x)"

definition dict_get :: "('k \<rightharpoonup> 'v) \<Rightarrow> 'k \<Rightarrow> 'v \<Rightarrow> 'v" where
  "dict_get d k dflt = or_default (d k) dflt"

text \<open>The arithmetic mean \<^verbatim>\<open>sum(xs) / len(xs)\<close>, used only on non-empty lists.\<close>

definition mean :: "rat list \<Rightarrow> rat" where
  "mean xs = sum_list xs / of_nat (length xs)"

subsection \<open>Doubles\<close>

text \<open>
  Rounding to the nearest double, ties to the even significand, for magnitudes in the
  normal range: a positive \<open>x\<close> with \<open>2 ^ e \<le> x < 2 ^ (e + 1)\<close> is rounded to a multiple of
  \<open>2 ^ (e - 52)\<close>. Division and multiplication of doubles, the conversion of a decimal
  literal, and the true division of two integers all return the exact result rounded this
  way. \<open>bit_length\<close> is the number of binary digits of a natural number.
\<close>

fun bit_length :: "nat \<Rightarrow> nat" where
  "bit_length n = (if n = 0 then 0 else Suc (bit_length (n div 2)))"

declare bit_length.simps [simp del]

definition binary_exponent :: "rat \<Rightarrow> int" where
  "binary_exponent x =
     (if 1 \<le> x then int (bit_length (nat \<lfloor>x\<rfloor>)) - 1
      else - int (bit_length (nat (\<lceil>1 / x\<rceil> - 1))))"

definition round_double :: "rat \<Rightarrow> rat" where
  "round_double x =
     (if x = 0 then 0
      else let e = binary_exponent \<bar>x\<bar>;
               u = (if 52 \<le> e then 2 ^ nat (e - 52) else 1 / 2 ^ nat (52 - e))
           in sgn x * of_int (round_half_even (\<bar>x\<bar> / u)) * u)"

section \<open>Data model\<close>

text \<open>
  One entry of \<^verbatim>\<open>serp_results["results"]\<close>. Each key may be missing from the dictionary
  (\<open>None\<close>); a value that is present has the type the code expects of it.
\<close>

record serp_result =
  r_position :: "int option"
  r_title :: "string option"
  r_url :: "string option"
  r_domain :: "string option"

text \<open>
  The \<^verbatim>\<open>serp_results\<close> dictionary; \<^verbatim>\<open>get_serp_results\<close> returns it without a
  \<^verbatim>\<open>"results"\<close> key when the provider call failed.
\<close>

record serp =
  results :: "serp_result list option"

text \<open>
  What one page request of \<^verbatim>\<open>get_actual_word_count\<close> ends in: an exception (network error,
  timeout, HTTP error status, parse failure), a document with no content element and no
  body, or the tokens \<^verbatim>\<open>text.split()\<close> of the main content. The network is a function from
  the URL to that outcome.
\<close>

datatype page = Request_failed | No_main_content | Main_content "string list"

type_synonym web = "string \<Rightarrow> page"

record estimate =
  e_position :: int
  e_domain :: string
  e_actual_words :: nat
  e_title :: string
  e_fetched :: bool

record content_length_profile =
  average :: rat
  median :: nat
  min_words :: nat
  max_words :: nat
  recommended_min :: int
  recommended_max :: int
  detailed_estimates :: "estimate list"

section \<open>Content length estimation\<close>

definition get_actual_word_count :: "web \<Rightarrow> string \<Rightarrow> nat option" where
  "get_actual_word_count w url =
     (case w url of
        Request_failed \<Rightarrow> None
      | No_main_content \<Rightarrow> None
      | Main_content ws \<Rightarrow> Some (length (filter (\<lambda>t. 0 < length t) ws)))"

text \<open>
  The sanity check \<^verbatim>\<open>if actual_words and actual_words > 100\<close> with its fallback of 2000
  words.
\<close>

definition word_count_of :: "nat option \<Rightarrow> nat" where
  "word_count_of actual_words =
     (case actual_words of
        None \<Rightarrow> 2000
      | Some n \<Rightarrow> if n \<noteq> 0 \<and> 100 < n then n else 2000)"

definition estimate_of :: "serp_result \<Rightarrow> nat option \<Rightarrow> estimate" where
  "estimate_of result actual_words =
     (let title = or_default (r_title result) ''''
      in \<lparr> e_position = or_default (r_position result) 999,
           e_domain = or_default (r_domain result) '''',
           e_actual_words = word_count_of actual_words,
           e_title = (if 60 < length title then take 60 title @ ''...'' else title),
           e_fetched = (actual_words \<noteq> None) \<rparr>)"

text \<open>
  The loop over the top results, appending to \<^verbatim>\<open>word_counts\<close> and
  \<^verbatim>\<open>detailed_estimates\<close>.
\<close>

fun fetch_loop ::
  "web \<Rightarrow> serp_result list \<Rightarrow> nat list \<Rightarrow> estimate list \<Rightarrow> nat list \<times> estimate list" where
  "fetch_loop w [] word_counts detailed = (word_counts, detailed)"
| "fetch_loop w (result # rest) word_counts detailed =
     (let actual_words = get_actual_word_count w (or_default (r_url result) '''')
      in fetch_loop w rest
           (word_counts @ [word_count_of actual_words])
           (detailed @ [estimate_of result actual_words]))"

text \<open>
  The statistics block. \<^verbatim>\<open>if word_counts:\<close> is the second equation, the hardcoded
  defaults of the \<^verbatim>\<open>else\<close> branch the first.
\<close>

fun calculate_statistics :: "nat list \<Rightarrow> estimate list \<Rightarrow> content_length_profile" where
  "calculate_statistics [] detailed =
     \<lparr> average = 3000, median = 3000, min_words = 1500, max_words = 5000,
       recommended_min = 3000, recommended_max = 4000, detailed_estimates = [] \<rparr>"
| "calculate_statistics (c # cs) detailed =
     (let word_counts = c # cs;
          avg_words = of_nat (sum_list word_counts) / of_nat (length word_counts);
          sorted_counts = sort word_counts
      in \<lparr> average = avg_words,
           median = sorted_counts ! (length sorted_counts div 2),
           min_words = fold min cs c,
           max_words = fold max cs c,
           recommended_min = int_trunc (avg_words * (11 / 10)),
           recommended_max = int_trunc (avg_words * (12 / 10)),
           detailed_estimates = detailed \<rparr>)"

definition serp_entries :: "serp \<Rightarrow> serp_result list" where
  "serp_entries serp_results = (case results serp_results of None \<Rightarrow> [] | Some rs \<Rightarrow> rs)"

definition estimate_content_length :: "web \<Rightarrow> serp \<Rightarrow> content_length_profile" where
  "estimate_content_length w serp_results =
     (case fetch_loop w (take 4 (serp_entries serp_results)) [] [] of
        (word_counts, detailed) \<Rightarrow> calculate_statistics word_counts detailed)"

text \<open>
  The lists \<^verbatim>\<open>word_counts\<close> and \<^verbatim>\<open>detailed_estimates\<close> as the loop leaves them.
\<close>

definition word_counts :: "web \<Rightarrow> serp \<Rightarrow> nat list" where
  "word_counts w serp_results = fst (fetch_loop w (take 4 (serp_entries serp_results)) [] [])"

definition detailed :: "web \<Rightarrow> serp \<Rightarrow> estimate list" where
  "detailed w serp_results = snd (fetch_loop w (take 4 (serp_entries serp_results)) [] [])"

text \<open>
  Lines 595, 602 and 603 in double precision: \<^verbatim>\<open>avg_words = sum(word_counts) / len(word_counts)\<close>
  is the quotient of two integers rounded to a double, and \<^verbatim>\<open>int(avg_words * 1.1)\<close>,
  \<^verbatim>\<open>int(avg_words * 1.2)\<close> truncate the rounded product of that double and the double of
  the literal. \<open>factor\<close> is the literal as a decimal fraction.
\<close>

definition avg_words_double :: "nat list \<Rightarrow> rat" where
  "avg_words_double counts = round_double (of_nat (sum_list counts) / of_nat (length counts))"

definition recommended_double :: "nat list \<Rightarrow> rat \<Rightarrow> int" where
  "recommended_double counts factor =
     int_trunc (round_double (avg_words_double counts * round_double factor))"

section \<open>Competition assessment\<close>

text \<open>
  A domain's authority metrics are a dictionary from metric names to numbers; the
  authority dataset \<^verbatim>\<open>competitor_metrics_dict\<close> maps domains to such dictionaries.
\<close>

type_synonym metrics = "string \<rightharpoonup> rat"

record own_metrics =
  your_pos_1 :: rat
  your_etv :: rat
  your_keywords :: rat

record competitor =
  domain :: string
  position :: int
  pos_1 :: rat
  etv :: rat
  keywords_count :: rat
  strength_score :: rat
  difficulty :: string

record competition_assessment =
  your_metrics :: own_metrics
  competitor_analysis :: "competitor list"
  overall_score :: rat
  verdict :: string
  target_position :: string
  recommendations :: "string list"
  content_length_analysis :: content_length_profile

text \<open>The three ratios, each with its fallback denominator when the own metric is not positive.\<close>

definition pos_1_ratio :: "rat \<Rightarrow> rat \<Rightarrow> rat" where
  "pos_1_ratio y_pos_1 comp_pos_1 =
     (if 0 < y_pos_1 then (if 0 < y_pos_1 then comp_pos_1 / y_pos_1 else comp_pos_1)
      else (if 0 < comp_pos_1 then comp_pos_1 / 100 else 0))"

definition etv_ratio :: "rat \<Rightarrow> rat \<Rightarrow> rat" where
  "etv_ratio y_etv comp_etv =
     (if 0 < y_etv then (if 0 < y_etv then comp_etv / y_etv else comp_etv / 1000)
      else (if 0 < comp_etv then comp_etv / 10000 else 0))"

definition keywords_ratio :: "rat \<Rightarrow> rat \<Rightarrow> rat" where
  "keywords_ratio y_keywords comp_keywords =
     (if 0 < y_keywords
      then (if 0 < y_keywords then comp_keywords / y_keywords else comp_keywords / 1000)
      else (if 0 < comp_keywords then comp_keywords / 5000 else 0))"

text \<open>
  The local variable \<^verbatim>\<open>strength_score\<close>: the weighted sum under its ceiling of 100, before
  it is rounded for storage.
\<close>

definition weighted_score :: "own_metrics \<Rightarrow> metrics \<Rightarrow> rat" where
  "weighted_score your ms =
     min 100
       (pos_1_ratio (your_pos_1 your) (dict_get ms ''pos_1'' 0) * 50 +
        etv_ratio (your_etv your) (dict_get ms ''etv'' 0) * 30 +
        keywords_ratio (your_keywords your) (dict_get ms ''keywords'' 0) * 20)"

definition difficulty_of :: "rat \<Rightarrow> string" where
  "difficulty_of s =
     (if s \<le> 30 then ''WEAK - Easy to outrank''
      else if s \<le> 60 then ''MEDIUM - Moderate effort needed''
      else if s \<le> 85 then ''STRONG - Significant effort required''
      else ''DOMINANT - Very difficult to outrank'')"

definition competitor_of :: "own_metrics \<Rightarrow> string \<Rightarrow> int \<Rightarrow> metrics \<Rightarrow> competitor" where
  "competitor_of your d p ms =
     (let s = weighted_score your ms
      in \<lparr> domain = d,
           position = p,
           pos_1 = dict_get ms ''pos_1'' 0,
           etv = dict_get ms ''etv'' 0,
           keywords_count = dict_get ms ''keywords'' 0,
           strength_score = round1 s,
           difficulty = difficulty_of s \<rparr>)"

text \<open>
  The body of the loop over all SERP entries, and the loop. The guard
  \<^verbatim>\<open>if domain and domain in competitor_metrics_dict\<close> passes over an entry whose domain is
  missing, empty or not a key of the dataset: nothing is appended for it.
\<close>

definition analyze_competitor ::
  "own_metrics \<Rightarrow> (string \<rightharpoonup> metrics) \<Rightarrow> serp_result \<Rightarrow> competitor option" where
  "analyze_competitor your dataset result =
     (case r_domain result of
        None \<Rightarrow> None
      | Some d \<Rightarrow>
          if d = [] then None
          else (case dataset d of
                  None \<Rightarrow> None
                | Some ms \<Rightarrow>
                    Some (competitor_of your d (or_default (r_position result) 999) ms)))"

fun competitor_loop ::
  "own_metrics \<Rightarrow> (string \<rightharpoonup> metrics) \<Rightarrow> serp_result list \<Rightarrow> competitor list \<Rightarrow> competitor list" where
  "competitor_loop your dataset [] analysis = analysis"
| "competitor_loop your dataset (result # rest) analysis =
     competitor_loop your dataset rest
       (case analyze_competitor your dataset result of
          None \<Rightarrow> analysis
        | Some c \<Rightarrow> analysis @ [c])"

text \<open>
  The local variable \<^verbatim>\<open>overall_score\<close>: the mean over \<^verbatim>\<open>top_5\<close>, the first five entries of
  the sorted list, or 0 when there is none.
\<close>

definition overall_score_of :: "competitor list \<Rightarrow> rat" where
  "overall_score_of analysis =
     (let top_5 = (if 5 \<le> length analysis then take 5 analysis else analysis)
      in if top_5 \<noteq> [] then sum_list (map strength_score top_5) / of_nat (length top_5) else 0)"

definition verdict_of :: "rat \<Rightarrow> string \<times> string" where
  "verdict_of s =
     (if s \<le> 30 then (''LOW COMPETITION - Excellent opportunity'', ''1-3'')
      else if s \<le> 60
        then (''MEDIUM COMPETITION - Good opportunity with quality content'', ''3-5'')
      else if s \<le> 85
        then (''HIGH COMPETITION - Requires exceptional content and link building'', ''5-10'')
      else (''VERY HIGH COMPETITION - Long-term strategy needed'', ''10-20 initially''))"

fun join :: "string \<Rightarrow> string list \<Rightarrow> string" where
  "join sep [] = []"
| "join sep [x] = x"
| "join sep (x # y # ys) = x @ sep @ join sep (y # ys)"

definition recommendations_of :: "rat \<Rightarrow> competitor list \<Rightarrow> string list" where
  "recommendations_of s analysis =
     (let canned =
        (if s \<le> 30 then
           [''Focus on content quality - competitors are weak'',
            ''Quick wins possible with on-page optimization'',
            ''Build topical authority in this niche'']
         else if s \<le> 60 then
           [''Create significantly better content than current top 10'',
            ''Build high-quality backlinks from relevant sites'',
            ''Focus on user experience and engagement metrics'']
         else if s \<le> 85 then
           [''Develop comprehensive pillar content'',
            ''Aggressive link building campaign required'',
            ''Build brand authority and E-E-A-T signals'',
            ''Consider targeting easier related keywords first'']
         else
           [''Long-term strategy needed (6-12+ months)'',
            ''Build domain authority through easier wins first'',
            ''Focus on long-tail variations initially'',
            ''Invest heavily in content quality and backlinks'']);
          easiest_targets = filter (\<lambda>c. strength_score c \<le> 40) analysis
      in if easiest_targets \<noteq> []
         then canned @
           [''Target to outrank first: '' @ join '', '' (map domain (take 3 easiest_targets))]
         else canned)"

text \<open>
  \<^verbatim>\<open>list.sort(key=...)\<close> is a stable sort, as is \<^const>\<open>sort_key\<close>. The returned
  \<^verbatim>\<open>"overall_score"\<close> is \<^verbatim>\<open>round(overall_score, 1)\<close>; verdict, target position and
  recommendations are taken from the value before that rounding.
\<close>

definition extract_your_metrics :: "metrics \<Rightarrow> own_metrics" where
  "extract_your_metrics your_domain_metrics =
     \<lparr> your_pos_1 = dict_get your_domain_metrics ''pos_1'' 0,
       your_etv = dict_get your_domain_metrics ''etv'' 0,
       your_keywords = dict_get your_domain_metrics ''keywords'' 0 \<rparr>"

text \<open>The list \<^verbatim>\<open>competitor_analysis\<close> as the loop leaves it, in SERP order, before the sort.\<close>

definition scored_competitors ::
  "metrics \<Rightarrow> (string \<rightharpoonup> metrics) \<Rightarrow> serp \<Rightarrow> competitor list" where
  "scored_competitors your_domain_metrics competitor_metrics_dict serp_results =
     competitor_loop (extract_your_metrics your_domain_metrics) competitor_metrics_dict
       (serp_entries serp_results) []"

definition calculate_competition_assessment ::
  "web \<Rightarrow> metrics \<Rightarrow> (string \<rightharpoonup> metrics) \<Rightarrow> serp \<Rightarrow> competition_assessment" where
  "calculate_competition_assessment w your_domain_metrics competitor_metrics_dict serp_results =
     (let content_length = estimate_content_length w serp_results;
          your = extract_your_metrics your_domain_metrics;
          analysis =
            sort_key strength_score
              (scored_competitors your_domain_metrics competitor_metrics_dict serp_results);
          score = overall_score_of analysis
      in \<lparr> your_metrics = your,
           competitor_analysis = analysis,
           overall_score = round1 score,
           verdict = fst (verdict_of score),
           target_position = snd (verdict_of score),
           recommendations = recommendations_of score analysis,
           content_length_analysis = content_length \<rparr>)"

text \<open>
  An entry is matched when its domain is present, not empty, and a key of the authority
  dataset.
\<close>

definition has_metrics :: "(string \<rightharpoonup> metrics) \<Rightarrow> serp_result \<Rightarrow> bool" where
  "has_metrics dataset result =
     (case r_domain result of None \<Rightarrow> False | Some d \<Rightarrow> d \<noteq> [] \<and> dataset d \<noteq> None)"

section \<open>Example inputs\<close>

text \<open>
  A result page of eight entries. The pages at positions 1, 2 and 4 have 1800, 2200 and
  3000 words, the page at position 3 cannot be fetched, and the entries from position 5 on
  lie beyond the four analysed positions (position 5 is a stub of 40 words, with no
  domain). The authority dataset knows six of the domains; \<open>c.example\<close> is not in it. The
  own domain has no rankings at all.
\<close>

definition example_web :: web where
  "example_web url =
     (if url = ''https://a.example/guide'' then Main_content (replicate 1800 ''word'')
      else if url = ''https://b.example/post'' then Main_content (replicate 2200 ''word'')
      else if url = ''https://d.example/docs'' then Main_content (replicate 3000 ''word'')
      else if url = ''https://e.example/'' then Main_content (replicate 40 ''word'')
      else Request_failed)"

definition example_serp :: serp where
  "example_serp =
     \<lparr> results = Some
        [\<lparr> r_position = Some 1, r_title = Some ''Guide'', r_url = Some ''https://a.example/guide'',
           r_domain = Some ''a.example'' \<rparr>,
         \<lparr> r_position = Some 2, r_title = Some ''Post'', r_url = Some ''https://b.example/post'',
           r_domain = Some ''b.example'' \<rparr>,
         \<lparr> r_position = Some 3, r_title = Some ''Down'', r_url = Some ''https://c.example/'',
           r_domain = Some ''c.example'' \<rparr>,
         \<lparr> r_position = Some 4, r_title = Some ''Docs'', r_url = Some ''https://d.example/docs'',
           r_domain = Some ''d.example'' \<rparr>,
         \<lparr> r_position = Some 5, r_title = Some ''Stub'', r_url = Some ''https://e.example/'',
           r_domain = None \<rparr>,
         \<lparr> r_position = Some 6, r_title = Some ''Faq'', r_url = Some ''https://f.example/faq'',
           r_domain = Some ''f.example'' \<rparr>,
         \<lparr> r_position = Some 7, r_title = Some ''Giant'', r_url = Some ''https://g.example/'',
           r_domain = Some ''g.example'' \<rparr>,
         \<lparr> r_position = Some 8, r_title = Some ''Huge'', r_url = Some ''https://h.example/'',
           r_domain = Some ''h.example'' \<rparr>] \<rparr>"

text \<open>A result page of three entries whose pages have 101, 104 and 105 words.\<close>

definition short_web :: web where
  "short_web url =
     (if url = ''https://a.example/guide'' then Main_content (replicate 101 ''word'')
      else if url = ''https://b.example/post'' then Main_content (replicate 104 ''word'')
      else if url = ''https://d.example/docs'' then Main_content (replicate 105 ''word'')
      else Request_failed)"

definition short_serp :: serp where
  "short_serp =
     \<lparr> results = Some
        [\<lparr> r_position = Some 1, r_title = Some ''Guide'', r_url = Some ''https://a.example/guide'',
           r_domain = Some ''a.example'' \<rparr>,
         \<lparr> r_position = Some 2, r_title = Some ''Post'', r_url = Some ''https://b.example/post'',
           r_domain = Some ''b.example'' \<rparr>,
         \<lparr> r_position = Some 3, r_title = Some ''Docs'', r_url = Some ''https://d.example/docs'',
           r_domain = Some ''d.example'' \<rparr>] \<rparr>"

definition example_own :: metrics where
  "example_own = [''pos_1'' \<mapsto> 0, ''etv'' \<mapsto> 0, ''keywords'' \<mapsto> 0]"

definition example_dataset :: "string \<rightharpoonup> metrics" where
  "example_dataset =
     [''a.example'' \<mapsto> [''pos_1'' \<mapsto> 2, ''etv'' \<mapsto> 10],
      ''b.example'' \<mapsto> [''pos_1'' \<mapsto> 1],
      ''d.example'' \<mapsto> [''pos_1'' \<mapsto> 2, ''etv'' \<mapsto> 60],
      ''f.example'' \<mapsto> [''pos_1'' \<mapsto> 2],
      ''g.example'' \<mapsto> [''pos_1'' \<mapsto> 50, ''etv'' \<mapsto> 20000, ''keywords'' \<mapsto> 3000],
      ''h.example'' \<mapsto> [''pos_1'' \<mapsto> 500]]"

text \<open>
  The scenario of the specification: a single competitor at position 1, against an own
  domain whose three metrics are zero.
\<close>

definition scenario_serp :: serp where
  "scenario_serp =
     \<lparr> results = Some
        [\<lparr> r_position = Some 1, r_title = Some ''Giant'', r_url = Some ''https://g.example/'',
           r_domain = Some ''g.example'' \<rparr>] \<rparr>"

definition scenario_dataset :: "string \<rightharpoonup> metrics" where
  "scenario_dataset =
     [''g.example'' \<mapsto> [''pos_1'' \<mapsto> 50, ''etv'' \<mapsto> 20000, ''keywords'' \<mapsto> 3000]]"

text \<open>A single weak competitor whose raw score of 0.03 is stored as 0.\<close>

definition faint_dataset :: "string \<rightharpoonup> metrics" where
  "faint_dataset = [''g.example'' \<mapsto> [''etv'' \<mapsto> 10]]"

section \<open>Auxiliary facts\<close>

subsection \<open>Rounding\<close>

lemma round_half_even_cases: "round_half_even x = \<lfloor>x\<rfloor> \<or> round_half_even x = \<lfloor>x\<rfloor> + 1"
  by (simp add: round_half_even_def Let_def)

lemma round_half_even_of_int: "round_half_even (of_int n) = n"
  by (simp add: round_half_even_def Let_def)

lemma round_half_even_nonneg: "0 \<le> x \<Longrightarrow> 0 \<le> round_half_even x"
  using round_half_even_cases [of x] by (auto simp: le_floor_iff)

lemma round_half_even_le:
  assumes "x \<le> of_int n"
  shows "round_half_even x \<le> n"
proof (cases "x = of_int n")
  case True
  then show ?thesis by (simp add: round_half_even_of_int)
next
  case False
  with assms have "x < of_int n" by simp
  then have "\<lfloor>x\<rfloor> < n" by (simp add: floor_less_iff)
  then show ?thesis using round_half_even_cases [of x] by auto
qed

lemma round1_bounds:
  assumes "0 \<le> x" "x \<le> 100"
  shows "0 \<le> round1 x \<and> round1 x \<le> 100"
proof -
  have "0 \<le> round_half_even (x * 10)"
    using assms by (intro round_half_even_nonneg) simp
  moreover have "round_half_even (x * 10) \<le> 1000"
    using assms by (intro round_half_even_le) simp
  ultimately show ?thesis by (simp add: round1_def)
qed

lemma floor_rat_numeral: "\<lfloor>numeral a / numeral b :: rat\<rfloor> = numeral a div numeral b"
  by (metis floor_divide_of_int_eq of_int_numeral)

lemmas double_simps =
  recommended_double_def avg_words_double_def round_double_def binary_exponent_def
  bit_length.simps round_half_even_def int_trunc_def Let_def floor_rat_numeral

subsection \<open>The two loops as list functions\<close>

lemma competitor_loop_eq:
  "competitor_loop your ds rs acc = acc @ List.map_filter (analyze_competitor your ds) rs"
  by (induction rs arbitrary: acc) (simp_all add: List.map_filter_simps split: option.splits)

lemma fetch_loop_eq:
  "fetch_loop w rs wcs des =
     (wcs @ map (\<lambda>r. word_count_of (get_actual_word_count w (or_default (r_url r) ''''))) rs,
      des @ map (\<lambda>r. estimate_of r (get_actual_word_count w (or_default (r_url r) ''''))) rs)"
  by (induction rs arbitrary: wcs des) (simp_all add: Let_def)

lemma word_counts_eq:
  "word_counts w s =
     map (\<lambda>r. word_count_of (get_actual_word_count w (or_default (r_url r) '''')))
       (take 4 (serp_entries s))"
  by (simp add: word_counts_def fetch_loop_eq)

lemma detailed_eq:
  "detailed w s =
     map (\<lambda>r. estimate_of r (get_actual_word_count w (or_default (r_url r) '''')))
       (take 4 (serp_entries s))"
  by (simp add: detailed_def fetch_loop_eq)

lemma estimate_content_length_eq:
  "estimate_content_length w s = calculate_statistics (word_counts w s) (detailed w s)"
  by (simp add: estimate_content_length_def word_counts_def detailed_def split: prod.splits)

subsection \<open>The samples and their statistics\<close>

lemma word_count_of_gt: "100 < word_count_of a"
  by (simp add: word_count_of_def split: option.splits)

lemma word_counts_gt: "n \<in> set (word_counts w s) \<Longrightarrow> 100 < n"
  by (auto simp: word_counts_eq word_count_of_gt)

lemma sum_list_lower: "(\<And>n. n \<in> set ws \<Longrightarrow> 100 < n) \<Longrightarrow> 101 * length ws \<le> sum_list ws"
proof (induction ws)
  case Nil
  then show ?case by simp
next
  case (Cons a ws)
  have "100 < a" using Cons.prems by simp
  moreover have "101 * length ws \<le> sum_list ws" using Cons by simp
  ultimately show ?case by simp
qed

lemma int_trunc_nonneg: "0 \<le> x \<Longrightarrow> int_trunc x = \<lfloor>x\<rfloor>"
  by (simp add: int_trunc_def)

lemma average_nonneg: "0 \<le> average (calculate_statistics ws de)"
  by (cases ws) (simp_all add: Let_def)

lemma statistics_average:
  "ws \<noteq> [] \<Longrightarrow> average (calculate_statistics ws de) = of_nat (sum_list ws) / of_nat (length ws)"
  by (cases ws) (simp_all add: Let_def)

lemma statistics_recommended:
  "ws \<noteq> [] \<Longrightarrow>
     recommended_min (calculate_statistics ws de)
       = \<lfloor>average (calculate_statistics ws de) * (11 / 10)\<rfloor>
     \<and> recommended_max (calculate_statistics ws de)
       = \<lfloor>average (calculate_statistics ws de) * (12 / 10)\<rfloor>"
  by (cases ws) (simp_all add: Let_def int_trunc_nonneg)

lemma statistics_min_max:
  "ws \<noteq> [] \<Longrightarrow>
     min_words (calculate_statistics ws de) = Min (set ws)
     \<and> max_words (calculate_statistics ws de) = Max (set ws)"
  by (cases ws) (simp_all add: Let_def Min.set_eq_fold Max.set_eq_fold del: set_simps)

lemma statistics_median:
  "ws \<noteq> [] \<Longrightarrow> median (calculate_statistics ws de) = sort ws ! (length ws div 2)"
  by (cases ws) (simp_all add: Let_def del: sort_key_simps)

lemma recommended_order:
  "recommended_min (calculate_statistics ws de) \<le> recommended_max (calculate_statistics ws de)"
proof (cases ws)
  case Nil then show ?thesis by simp
next
  case (Cons c cs)
  let ?a = "average (calculate_statistics ws de)"
  have "0 \<le> ?a" by (rule average_nonneg)
  then have "?a * (11 / 10) \<le> ?a * (12 / 10)" by simp
  then have "\<lfloor>?a * (11 / 10)\<rfloor> \<le> \<lfloor>?a * (12 / 10)\<rfloor>" by (rule floor_mono)
  then show ?thesis using statistics_recommended [of ws de] Cons by simp
qed

lemma floor_average_le:
  "\<lfloor>average (calculate_statistics ws de)\<rfloor> \<le> recommended_min (calculate_statistics ws de)"
proof (cases ws)
  case Nil then show ?thesis by simp
next
  case (Cons c cs)
  let ?a = "average (calculate_statistics ws de)"
  have "0 \<le> ?a" by (rule average_nonneg)
  then have "?a \<le> ?a * (11 / 10)" by simp
  then have "\<lfloor>?a\<rfloor> \<le> \<lfloor>?a * (11 / 10)\<rfloor>" by (rule floor_mono)
  then show ?thesis using statistics_recommended [of ws de] Cons by simp
qed

lemma average_le_recommended_min:
  "average (estimate_content_length w s) \<le> of_int (recommended_min (estimate_content_length w s))"
proof (cases "word_counts w s = []")
  case True
  then show ?thesis by (simp add: estimate_content_length_eq)
next
  case False
  let ?ws = "word_counts w s"
  let ?p = "calculate_statistics ?ws (detailed w s)"
  let ?a = "average ?p"
  have len: "0 < length ?ws" using False by simp
  have "101 * length ?ws \<le> sum_list ?ws" by (rule sum_list_lower) (rule word_counts_gt)
  then have "(of_nat (101 * length ?ws) :: rat) \<le> of_nat (sum_list ?ws)" by (rule of_nat_mono)
  then have "(101::rat) * of_nat (length ?ws) \<le> of_nat (sum_list ?ws)" by simp
  then have "101 \<le> ?a" using len False by (simp add: statistics_average pos_le_divide_eq)
  then have "?a \<le> ?a * (11 / 10) - 1" by simp
  also have "\<dots> < of_int \<lfloor>?a * (11 / 10)\<rfloor>" using floor_correct [of "?a * (11 / 10)"] by simp
  finally show ?thesis using statistics_recommended [of ?ws "detailed w s"] False
    by (simp add: estimate_content_length_eq)
qed

subsection \<open>The assessment, field by field\<close>

lemma scored_competitors_eq:
  "scored_competitors ym ds s
     = List.map_filter (analyze_competitor (extract_your_metrics ym) ds) (serp_entries s)"
  by (simp add: scored_competitors_def competitor_loop_eq)

lemma competitor_analysis_eq:
  "competitor_analysis (calculate_competition_assessment w ym ds s)
     = sort_key strength_score (scored_competitors ym ds s)"
  by (simp add: calculate_competition_assessment_def Let_def)

lemma overall_score_eq:
  "overall_score (calculate_competition_assessment w ym ds s)
     = round1 (overall_score_of (competitor_analysis (calculate_competition_assessment w ym ds s)))"
  by (simp add: calculate_competition_assessment_def Let_def)

lemma verdict_eq:
  "verdict (calculate_competition_assessment w ym ds s)
     = fst (verdict_of (overall_score_of (competitor_analysis (calculate_competition_assessment w ym ds s))))
   \<and> target_position (calculate_competition_assessment w ym ds s)
     = snd (verdict_of (overall_score_of (competitor_analysis (calculate_competition_assessment w ym ds s))))"
  by (simp add: calculate_competition_assessment_def Let_def)

lemma analyze_competitor_Some_iff:
  "(analyze_competitor your ds r \<noteq> None) = has_metrics ds r"
  by (auto simp: analyze_competitor_def has_metrics_def split: option.splits)

lemma length_map_filter_analyze:
  "length (List.map_filter (analyze_competitor your ds) rs) = length (filter (has_metrics ds) rs)"
proof (induction rs)
  case Nil
  then show ?case by simp
next
  case (Cons r rs)
  show ?case
  proof (cases "analyze_competitor your ds r")
    case None
    then have "\<not> has_metrics ds r" using analyze_competitor_Some_iff [of your ds r] by simp
    with None Cons show ?thesis by simp
  next
    case (Some c)
    then have "has_metrics ds r" using analyze_competitor_Some_iff [of your ds r] by simp
    with Some Cons show ?thesis by simp
  qed
qed

lemma analyze_competitor_SomeD:
  assumes "analyze_competitor your ds r = Some c"
  shows "\<exists>ms. r_domain r = Some (domain c) \<and> domain c \<noteq> [] \<and> ds (domain c) = Some ms
            \<and> c = competitor_of your (domain c) (or_default (r_position r) 999) ms"
  using assms
  by (auto simp: analyze_competitor_def competitor_of_def Let_def split: option.splits if_splits)

lemma in_map_filterD:
  "c \<in> set (List.map_filter f rs) \<Longrightarrow> \<exists>r \<in> set rs. f r = Some c"
  by (induction rs) (auto split: option.splits)

lemma overall_score_of_mean:
  "overall_score_of ca
     = (if ca = [] then 0 else mean (map strength_score (take (min 5 (length ca)) ca)))"
  by (auto simp: overall_score_of_def mean_def Let_def min_def)

lemma weighted_score_bounds:
  assumes "0 \<le> your_pos_1 your" "0 \<le> your_etv your" "0 \<le> your_keywords your"
    and "0 \<le> dict_get ms ''pos_1'' 0" "0 \<le> dict_get ms ''etv'' 0" "0 \<le> dict_get ms ''keywords'' 0"
  shows "0 \<le> weighted_score your ms \<and> weighted_score your ms \<le> 100"
proof -
  have p: "0 \<le> pos_1_ratio (your_pos_1 your) (dict_get ms ''pos_1'' 0)"
    using assms by (simp add: pos_1_ratio_def)
  have e: "0 \<le> etv_ratio (your_etv your) (dict_get ms ''etv'' 0)"
    using assms by (simp add: etv_ratio_def)
  have k: "0 \<le> keywords_ratio (your_keywords your) (dict_get ms ''keywords'' 0)"
    using assms by (simp add: keywords_ratio_def)
  from p e k show ?thesis by (simp add: weighted_score_def)
qed

lemma map_filter_skip:
  "f r = None \<Longrightarrow> List.map_filter f (pre @ r # post) = List.map_filter f (pre @ post)"
  by (simp add: List.map_filter_def)

subsection \<open>The example inputs evaluated\<close>

lemma example_word_counts: "word_counts example_web example_serp = [1800, 2200, 2000, 3000]"
  by (simp add: word_counts_eq example_serp_def serp_entries_def example_web_def
      get_actual_word_count_def word_count_of_def or_default_def)

lemmas score_simps = floor_rat_numeral
  competitor_of_def weighted_score_def pos_1_ratio_def etv_ratio_def keywords_ratio_def
  dict_get_def or_default_def round1_def round_half_even_def difficulty_of_def Let_def

lemma example_your: "extract_your_metrics example_own = \<lparr> your_pos_1 = 0, your_etv = 0, your_keywords = 0 \<rparr>"
  by (simp add: extract_your_metrics_def example_own_def dict_get_def or_default_def)

lemma example_scored:
  "scored_competitors example_own example_dataset example_serp =
    [\<lparr> domain = ''a.example'', position = 1, pos_1 = 2, etv = 10, keywords_count = 0,
        strength_score = 1, difficulty = ''WEAK - Easy to outrank'' \<rparr>,
     \<lparr> domain = ''b.example'', position = 2, pos_1 = 1, etv = 0, keywords_count = 0,
        strength_score = 1 / 2, difficulty = ''WEAK - Easy to outrank'' \<rparr>,
     \<lparr> domain = ''d.example'', position = 4, pos_1 = 2, etv = 60, keywords_count = 0,
        strength_score = 6 / 5, difficulty = ''WEAK - Easy to outrank'' \<rparr>,
     \<lparr> domain = ''f.example'', position = 6, pos_1 = 2, etv = 0, keywords_count = 0,
        strength_score = 1, difficulty = ''WEAK - Easy to outrank'' \<rparr>,
     \<lparr> domain = ''g.example'', position = 7, pos_1 = 50, etv = 20000, keywords_count = 3000,
        strength_score = 97, difficulty = ''DOMINANT - Very difficult to outrank'' \<rparr>,
     \<lparr> domain = ''h.example'', position = 8, pos_1 = 500, etv = 0, keywords_count = 0,
        strength_score = 100, difficulty = ''DOMINANT - Very difficult to outrank'' \<rparr>]"
  by (simp add: scored_competitors_eq example_your example_serp_def serp_entries_def
      example_dataset_def analyze_competitor_def score_simps)

lemma example_analysis:
  "competitor_analysis (calculate_competition_assessment w example_own example_dataset example_serp) =
    [\<lparr> domain = ''b.example'', position = 2, pos_1 = 1, etv = 0, keywords_count = 0,
        strength_score = 1 / 2, difficulty = ''WEAK - Easy to outrank'' \<rparr>,
     \<lparr> domain = ''a.example'', position = 1, pos_1 = 2, etv = 10, keywords_count = 0,
        strength_score = 1, difficulty = ''WEAK - Easy to outrank'' \<rparr>,
     \<lparr> domain = ''f.example'', position = 6, pos_1 = 2, etv = 0, keywords_count = 0,
        strength_score = 1, difficulty = ''WEAK - Easy to outrank'' \<rparr>,
     \<lparr> domain = ''d.example'', position = 4, pos_1 = 2, etv = 60, keywords_count = 0,
        strength_score = 6 / 5, difficulty = ''WEAK - Easy to outrank'' \<rparr>,
     \<lparr> domain = ''g.example'', position = 7, pos_1 = 50, etv = 20000, keywords_count = 3000,
        strength_score = 97, difficulty = ''DOMINANT - Very difficult to outrank'' \<rparr>,
     \<lparr> domain = ''h.example'', position = 8, pos_1 = 500, etv = 0, keywords_count = 0,
        strength_score = 100, difficulty = ''DOMINANT - Very difficult to outrank'' \<rparr>]"
  by (simp add: competitor_analysis_eq example_scored)

lemma example_overall:
  "overall_score (calculate_competition_assessment w example_own example_dataset example_serp) = 201 / 10"
  by (simp add: overall_score_eq example_analysis overall_score_of_def round1_def round_half_even_def Let_def floor_rat_numeral)

lemma example_has_metrics:
  "length (filter (has_metrics example_dataset) (serp_entries example_serp)) = 6"
  by (simp add: has_metrics_def example_serp_def serp_entries_def example_dataset_def)

section \<open>Properties of the content length estimation\<close>

text \<open>
  Claim C4. When the result page has at least four entries, exactly the first four are
  analysed and each contributes one sample: the lists of word counts and of detailed
  estimates have length four, the profile is the one of the page cut to its first four
  entries, and the average divides the sum of the four samples by four. A position whose
  fetch gave no count, or a count of at most 100 (so in particular below 100), contributes
  2000; a larger count contributes itself. A failed request is such a position: it yields
  the sample 2000 and the function returns its profile all the same.
\<close>

theorem four_samples:
  assumes "4 \<le> length (serp_entries s)"
  shows "length (word_counts w s) = 4
    \<and> length (detailed w s) = 4
    \<and> estimate_content_length w s
        = estimate_content_length w \<lparr> results = Some (take 4 (serp_entries s)) \<rparr>
    \<and> average (estimate_content_length w s) = of_nat (sum_list (word_counts w s)) / 4
    \<and> (\<forall>i<4. let a = get_actual_word_count w (or_default (r_url (serp_entries s ! i)) '''')
               in (a = None \<longrightarrow> word_counts w s ! i = 2000)
                \<and> (\<forall>n. a = Some n \<longrightarrow> (n \<le> 100 \<longrightarrow> word_counts w s ! i = 2000)
                                     \<and> (100 < n \<longrightarrow> word_counts w s ! i = n)))
    \<and> (\<forall>i<4. w (or_default (r_url (serp_entries s ! i)) '''') = Request_failed
               \<longrightarrow> word_counts w s ! i = 2000)"
proof -
  let ?rs = "take 4 (serp_entries s)"
  have len: "length (word_counts w s) = 4" using assms by (simp add: word_counts_eq)
  have lend: "length (detailed w s) = 4" using assms by (simp add: detailed_eq)
  have same: "estimate_content_length w s = estimate_content_length w \<lparr> results = Some ?rs \<rparr>"
    by (simp add: estimate_content_length_def serp_entries_def)
  have ne: "word_counts w s \<noteq> []" using len by auto
  have avg: "average (estimate_content_length w s) = of_nat (sum_list (word_counts w s)) / 4"
    using statistics_average [OF ne] len by (simp add: estimate_content_length_eq)
  have nth: "word_counts w s ! i
      = word_count_of (get_actual_word_count w (or_default (r_url (serp_entries s ! i)) ''''))"
    if "i < 4" for i
    using that assms by (simp add: word_counts_eq)
  have each: "(let a = get_actual_word_count w (or_default (r_url (serp_entries s ! i)) '''')
               in (a = None \<longrightarrow> word_counts w s ! i = 2000)
                \<and> (\<forall>n. a = Some n \<longrightarrow> (n \<le> 100 \<longrightarrow> word_counts w s ! i = 2000)
                                     \<and> (100 < n \<longrightarrow> word_counts w s ! i = n)))"
    if "i < 4" for i
    using nth [OF that] by (simp add: Let_def word_count_of_def)
  have failed: "word_counts w s ! i = 2000"
    if "i < 4" "w (or_default (r_url (serp_entries s ! i)) '''') = Request_failed" for i
    using nth [OF that(1)] that(2) by (simp add: get_actual_word_count_def word_count_of_def)
  from len lend same avg each failed show ?thesis by blast
qed

theorem four_samples_witness:
  "4 \<le> length (serp_entries example_serp)
   \<and> length (word_counts example_web example_serp) = 4
   \<and> average (estimate_content_length example_web example_serp) = 2250
   \<and> word_counts example_web example_serp ! 2 = 2000"
proof -
  have h: "4 \<le> length (serp_entries example_serp)"
    by (simp add: example_serp_def serp_entries_def)
  have f: "example_web (or_default (r_url (serp_entries example_serp ! 2)) '''') = Request_failed"
    by (simp add: example_serp_def serp_entries_def example_web_def or_default_def)
  note t = four_samples [OF h, of example_web]
  from t have len: "length (word_counts example_web example_serp) = 4" by blast
  from t have "average (estimate_content_length example_web example_serp)
      = of_nat (sum_list (word_counts example_web example_serp)) / 4" by blast
  then have avg: "average (estimate_content_length example_web example_serp) = 2250"
    by (simp add: example_word_counts)
  from t f have "word_counts example_web example_serp ! 2 = 2000" by simp
  with h len avg show ?thesis by blast
qed

text \<open>
  Claim C5. The claim gives the recommended maximum as the floor of the average times
  1.2, the average being the arithmetic mean of the samples. On a page of three results
  with 101, 104 and 105 words the loop collects exactly these samples; their mean is
  \<open>310 / 3\<close> and its product with 1.2 is 124. The code computes in doubles: the average is
  the double below \<open>310 / 3\<close>, the literal is the double below \<open>6 / 5\<close>, their rounded
  product is a double below 124, and \<^verbatim>\<open>int\<close> returns 123. For the factor 1.1 and for the
  four samples 1800, 2200, 2000, 3000 the doubles give the exact floors 113, 2475 and
  2700.
\<close>

theorem recommended_max_three_samples:
  "word_counts short_web short_serp = [101, 104, 105]
   \<and> avg_words_double (word_counts short_web short_serp)
      = 7271436898358613 / 70368744177664
   \<and> round_double (12 / 10) = 5404319552844595 / 4503599627370496
   \<and> recommended_double (word_counts short_web short_serp) (12 / 10) = 123
   \<and> \<lfloor>rat_of_nat (sum_list (word_counts short_web short_serp))
        / rat_of_nat (length (word_counts short_web short_serp)) * (12 / 10)\<rfloor> = 124
   \<and> recommended_double (word_counts short_web short_serp) (11 / 10) = 113
   \<and> recommended_double [1800, 2200, 2000, 3000] (11 / 10) = 2475
   \<and> recommended_double [1800, 2200, 2000, 3000] (12 / 10) = 2700"
proof -
  have wc: "word_counts short_web short_serp = [101, 104, 105]"
    by (simp add: word_counts_eq short_serp_def serp_entries_def short_web_def
        get_actual_word_count_def word_count_of_def or_default_def)
  have avg: "avg_words_double [101, 104, 105] = 7271436898358613 / 70368744177664"
    by (simp add: double_simps)
  have lit: "round_double (12 / 10) = 5404319552844595 / 4503599627370496"
    by (simp add: double_simps)
  have mx: "recommended_double [101, 104, 105] (12 / 10) = 123"
    by (simp add: double_simps)
  have exact: "\<lfloor>rat_of_nat (sum_list [101, 104, 105])
        / rat_of_nat (length [101 :: nat, 104, 105]) * (12 / 10)\<rfloor> = 124"
    by simp
  have mn: "recommended_double [101, 104, 105] (11 / 10) = 113"
    by (simp add: double_simps)
  have four_min: "recommended_double [1800, 2200, 2000, 3000] (11 / 10) = 2475"
    by (simp add: double_simps)
  have four_max: "recommended_double [1800, 2200, 2000, 3000] (12 / 10) = 2700"
    by (simp add: double_simps)
  from wc avg lit mx exact mn four_min four_max show ?thesis by simp
qed

text \<open>
  Claim C6. In every profile the estimator returns, the recommended minimum is at most the
  recommended maximum, both are at least the average, and the recommended minimum is at
  least the floor of the average. The order of the band and the floor bound hold for the
  statistics of any list of samples.
\<close>

theorem recommended_band:
  "recommended_min (estimate_content_length w s) \<le> recommended_max (estimate_content_length w s)
   \<and> average (estimate_content_length w s) \<le> of_int (recommended_min (estimate_content_length w s))
   \<and> average (estimate_content_length w s) \<le> of_int (recommended_max (estimate_content_length w s))
   \<and> \<lfloor>average (estimate_content_length w s)\<rfloor> \<le> recommended_min (estimate_content_length w s)
   \<and> \<lfloor>average (calculate_statistics ws de)\<rfloor> \<le> recommended_min (calculate_statistics ws de)
   \<and> recommended_min (calculate_statistics ws de) \<le> recommended_max (calculate_statistics ws de)"
proof -
  let ?p = "estimate_content_length w s"
  have order: "recommended_min ?p \<le> recommended_max ?p"
    unfolding estimate_content_length_eq by (rule recommended_order)
  have low: "average ?p \<le> of_int (recommended_min ?p)"
    by (rule average_le_recommended_min)
  also have "(of_int (recommended_min ?p) :: rat) \<le> of_int (recommended_max ?p)"
    using order by simp
  finally have high: "average ?p \<le> of_int (recommended_max ?p)" .
  have fl: "\<lfloor>average ?p\<rfloor> \<le> recommended_min ?p"
    unfolding estimate_content_length_eq by (rule floor_average_le)
  from order low high fl floor_average_le [of ws de] recommended_order [of ws de]
  show ?thesis by blast
qed

section \<open>Properties of the competition assessment\<close>

text \<open>
  Claim C1. When \<open>N \<ge> 1\<close> entries of the result page are matched, the returned competitor
  list has \<open>N\<close> entries and is the stable ascending sort by strength score of the matched
  entries taken in SERP order: it is sorted, it is a permutation of them, and the entries
  of any one score keep their SERP order. The overall score that lines 736 and 737 compute
  from this list, the value from which the assessment takes its verdict and target
  position, is the arithmetic mean of the strength scores of the first \<open>min 5 N\<close> entries
  of the sorted list.
\<close>

theorem sorted_competitors_mean:
  assumes a: "a = calculate_competition_assessment w ym ds s"
    and N: "N = length (filter (has_metrics ds) (serp_entries s))"
    and pos: "1 \<le> N"
  shows "length (competitor_analysis a) = N
    \<and> sorted (map strength_score (competitor_analysis a))
    \<and> mset (competitor_analysis a) = mset (scored_competitors ym ds s)
    \<and> (\<forall>k. filter (\<lambda>c. strength_score c = k) (competitor_analysis a)
           = filter (\<lambda>c. strength_score c = k) (scored_competitors ym ds s))
    \<and> scored_competitors ym ds s
        = List.map_filter (analyze_competitor (extract_your_metrics ym) ds) (serp_entries s)
    \<and> overall_score_of (competitor_analysis a)
        = mean (map strength_score (take (min 5 N) (competitor_analysis a)))
    \<and> (verdict a, target_position a) = verdict_of (overall_score_of (competitor_analysis a))"
proof -
  let ?ca = "competitor_analysis a"
  have ca: "?ca = sort_key strength_score (scored_competitors ym ds s)"
    unfolding a by (rule competitor_analysis_eq)
  have len: "length ?ca = N"
    unfolding ca N by (simp add: scored_competitors_eq length_map_filter_analyze)
  have srt: "sorted (map strength_score ?ca)"
    unfolding ca by (rule sorted_sort_key)
  have perm: "mset ?ca = mset (scored_competitors ym ds s)"
    unfolding ca by simp
  have stable: "filter (\<lambda>c. strength_score c = k) ?ca
      = filter (\<lambda>c. strength_score c = k) (scored_competitors ym ds s)" for k
    unfolding ca by (rule sort_key_stable)
  have ne: "?ca \<noteq> []" using len pos by auto
  have score: "overall_score_of ?ca = mean (map strength_score (take (min 5 N) ?ca))"
    using ne len by (simp add: overall_score_of_mean)
  have verd: "(verdict a, target_position a) = verdict_of (overall_score_of ?ca)"
    unfolding a using verdict_eq [of w ym ds s] by simp
  from len srt perm stable scored_competitors_eq [of ym ds s] score verd
  show ?thesis by blast
qed

theorem sorted_competitors_mean_witness:
  "1 \<le> length (filter (has_metrics example_dataset) (serp_entries example_serp))
   \<and> map domain (competitor_analysis
        (calculate_competition_assessment example_web example_own example_dataset example_serp))
      = [''b.example'', ''a.example'', ''f.example'', ''d.example'', ''g.example'', ''h.example'']
   \<and> overall_score_of (competitor_analysis
        (calculate_competition_assessment example_web example_own example_dataset example_serp))
      = mean [1 / 2, 1, 1, 6 / 5, 97]
   \<and> mean [1 / 2, 1, 1, 6 / 5, 97] = 1007 / 50
   \<and> verdict
        (calculate_competition_assessment example_web example_own example_dataset example_serp)
      = ''LOW COMPETITION - Excellent opportunity''"
proof -
  let ?a = "calculate_competition_assessment example_web example_own example_dataset example_serp"
  have N: "(6::nat) = length (filter (has_metrics example_dataset) (serp_entries example_serp))"
    by (simp add: example_has_metrics)
  have pos: "(1::nat) \<le> 6" by simp
  note t = sorted_competitors_mean [OF refl N pos, of example_web example_own]
  from t have "overall_score_of (competitor_analysis ?a)
      = mean (map strength_score (take (min 5 6) (competitor_analysis ?a)))"
    by blast
  then have score: "overall_score_of (competitor_analysis ?a) = mean [1 / 2, 1, 1, 6 / 5, 97]"
    by (simp add: example_analysis)
  have dom: "map domain (competitor_analysis ?a)
      = [''b.example'', ''a.example'', ''f.example'', ''d.example'', ''g.example'', ''h.example'']"
    by (simp add: example_analysis)
  have val: "mean [1 / 2, 1, 1, 6 / 5, 97] = 1007 / 50"
    by (simp add: mean_def)
  from t have "(verdict ?a, target_position ?a) = verdict_of (overall_score_of (competitor_analysis ?a))"
    by blast
  then have "verdict_of (1007 / 50) = (verdict ?a, target_position ?a)"
    by (simp add: score val)
  then have verd: "verdict ?a = ''LOW COMPETITION - Excellent opportunity''"
    by (simp add: verdict_of_def)
  from N pos dom score val verd show ?thesis by simp
qed

text \<open>
  Claim C2. When the three own metrics and the three metrics of a competitor are not
  negative, the weighted score lies between 0 and 100, and so does the strength score
  stored for the competitor, its rounding to one decimal place. The ceiling of 100 holds
  however large the ratios are.
\<close>

theorem strength_score_range:
  assumes "0 \<le> dict_get ym ''pos_1'' 0" "0 \<le> dict_get ym ''etv'' 0" "0 \<le> dict_get ym ''keywords'' 0"
    and "0 \<le> dict_get ms ''pos_1'' 0" "0 \<le> dict_get ms ''etv'' 0" "0 \<le> dict_get ms ''keywords'' 0"
  shows "0 \<le> weighted_score (extract_your_metrics ym) ms
    \<and> weighted_score (extract_your_metrics ym) ms \<le> 100
    \<and> 0 \<le> strength_score (competitor_of (extract_your_metrics ym) d p ms)
    \<and> strength_score (competitor_of (extract_your_metrics ym) d p ms) \<le> 100"
proof -
  let ?your = "extract_your_metrics ym"
  have "0 \<le> your_pos_1 ?your" "0 \<le> your_etv ?your" "0 \<le> your_keywords ?your"
    using assms(1-3) by (simp_all add: extract_your_metrics_def)
  then have raw: "0 \<le> weighted_score ?your ms \<and> weighted_score ?your ms \<le> 100"
    using assms(4-6) by (rule weighted_score_bounds)
  then have "0 \<le> round1 (weighted_score ?your ms) \<and> round1 (weighted_score ?your ms) \<le> 100"
    by (intro round1_bounds) simp_all
  moreover have "strength_score (competitor_of ?your d p ms) = round1 (weighted_score ?your ms)"
    by (simp add: competitor_of_def Let_def)
  ultimately show ?thesis using raw by simp
qed

theorem strength_score_range_witness:
  "pos_1_ratio 0 500 = 5
   \<and> weighted_score (extract_your_metrics example_own) [''pos_1'' \<mapsto> 500] = 100
   \<and> 0 \<le> strength_score
        (competitor_of (extract_your_metrics example_own) ''h.example'' 8 [''pos_1'' \<mapsto> 500])
   \<and> strength_score
        (competitor_of (extract_your_metrics example_own) ''h.example'' 8 [''pos_1'' \<mapsto> 500])
      \<le> 100"
proof -
  let ?ms = "[''pos_1'' \<mapsto> 500] :: metrics"
  have own: "0 \<le> dict_get example_own ''pos_1'' 0" "0 \<le> dict_get example_own ''etv'' 0"
    "0 \<le> dict_get example_own ''keywords'' 0"
    by (simp_all add: example_own_def dict_get_def or_default_def)
  have comp: "0 \<le> dict_get ?ms ''pos_1'' 0" "0 \<le> dict_get ?ms ''etv'' 0"
    "0 \<le> dict_get ?ms ''keywords'' 0"
    by (simp_all add: dict_get_def or_default_def)
  have ratio: "pos_1_ratio 0 500 = 5" by (simp add: pos_1_ratio_def)
  have raw: "weighted_score (extract_your_metrics example_own) ?ms = 100"
    by (simp add: example_your weighted_score_def pos_1_ratio_def etv_ratio_def
        keywords_ratio_def dict_get_def or_default_def)
  from strength_score_range [OF own comp, of "''h.example''" 8] ratio raw
  show ?thesis by simp
qed

text \<open>
  Claim C3. The difficulty label of a score \<open>x\<close> is WEAK exactly when \<open>x \<le> 30\<close>, MEDIUM
  exactly when \<open>30 < x \<le> 60\<close>, STRONG exactly when \<open>60 < x \<le> 85\<close> and DOMINANT exactly when
  \<open>85 < x\<close>; verdict and target position follow the same four bands, with the positions
  1-3, 3-5, 5-10 and 10-20 initially. A competitor is labelled by its weighted score, and
  the assessment takes verdict and target position from the mean over the weakest five:
  both are the values as computed, before they are rounded for the output.
\<close>

theorem threshold_bands:
  "(difficulty_of x = ''WEAK - Easy to outrank'' \<longleftrightarrow> x \<le> 30)
   \<and> (difficulty_of x = ''MEDIUM - Moderate effort needed'' \<longleftrightarrow> 30 < x \<and> x \<le> 60)
   \<and> (difficulty_of x = ''STRONG - Significant effort required'' \<longleftrightarrow> 60 < x \<and> x \<le> 85)
   \<and> (difficulty_of x = ''DOMINANT - Very difficult to outrank'' \<longleftrightarrow> 85 < x)
   \<and> (verdict_of x = (''LOW COMPETITION - Excellent opportunity'', ''1-3'') \<longleftrightarrow> x \<le> 30)
   \<and> (verdict_of x = (''MEDIUM COMPETITION - Good opportunity with quality content'', ''3-5'')
        \<longleftrightarrow> 30 < x \<and> x \<le> 60)
   \<and> (verdict_of x
          = (''HIGH COMPETITION - Requires exceptional content and link building'', ''5-10'')
        \<longleftrightarrow> 60 < x \<and> x \<le> 85)
   \<and> (verdict_of x = (''VERY HIGH COMPETITION - Long-term strategy needed'', ''10-20 initially'')
        \<longleftrightarrow> 85 < x)
   \<and> difficulty (competitor_of your d p ms) = difficulty_of (weighted_score your ms)
   \<and> (verdict (calculate_competition_assessment w ym ds s),
       target_position (calculate_competition_assessment w ym ds s))
      = verdict_of (overall_score_of
          (competitor_analysis (calculate_competition_assessment w ym ds s)))"
proof -
  have d1: "difficulty_of x = ''WEAK - Easy to outrank'' \<longleftrightarrow> x \<le> 30"
    by (simp add: difficulty_of_def)
  have d2: "difficulty_of x = ''MEDIUM - Moderate effort needed'' \<longleftrightarrow> 30 < x \<and> x \<le> 60"
    by (auto simp: difficulty_of_def)
  have d3: "difficulty_of x = ''STRONG - Significant effort required'' \<longleftrightarrow> 60 < x \<and> x \<le> 85"
    by (auto simp: difficulty_of_def)
  have d4: "difficulty_of x = ''DOMINANT - Very difficult to outrank'' \<longleftrightarrow> 85 < x"
    by (auto simp: difficulty_of_def)
  have v1: "verdict_of x = (''LOW COMPETITION - Excellent opportunity'', ''1-3'') \<longleftrightarrow> x \<le> 30"
    by (simp add: verdict_of_def)
  have v2: "verdict_of x = (''MEDIUM COMPETITION - Good opportunity with quality content'', ''3-5'')
        \<longleftrightarrow> 30 < x \<and> x \<le> 60"
    by (auto simp: verdict_of_def)
  have v3: "verdict_of x
          = (''HIGH COMPETITION - Requires exceptional content and link building'', ''5-10'')
        \<longleftrightarrow> 60 < x \<and> x \<le> 85"
    by (auto simp: verdict_of_def)
  have v4: "verdict_of x = (''VERY HIGH COMPETITION - Long-term strategy needed'', ''10-20 initially'')
        \<longleftrightarrow> 85 < x"
    by (auto simp: verdict_of_def)
  have c: "difficulty (competitor_of your d p ms) = difficulty_of (weighted_score your ms)"
    by (simp add: competitor_of_def Let_def)
  have a: "(verdict (calculate_competition_assessment w ym ds s),
       target_position (calculate_competition_assessment w ym ds s))
      = verdict_of (overall_score_of
          (competitor_analysis (calculate_competition_assessment w ym ds s)))"
    using verdict_eq [of w ym ds s] by simp
  from d1 d2 d3 d4 v1 v2 v3 v4 c a show ?thesis by blast
qed

theorem threshold_bands_witness:
  "difficulty_of 30 = ''WEAK - Easy to outrank''
   \<and> difficulty_of (300001 / 10000) = ''MEDIUM - Moderate effort needed''
   \<and> difficulty_of 60 = ''MEDIUM - Moderate effort needed''
   \<and> difficulty_of 85 = ''STRONG - Significant effort required''
   \<and> difficulty_of (850001 / 10000) = ''DOMINANT - Very difficult to outrank''
   \<and> verdict_of 30 = (''LOW COMPETITION - Excellent opportunity'', ''1-3'')
   \<and> verdict_of (300001 / 10000)
      = (''MEDIUM COMPETITION - Good opportunity with quality content'', ''3-5'')"
proof -
  have 1: "difficulty_of 30 = ''WEAK - Easy to outrank''"
    using threshold_bands [of 30] by simp
  have 2: "difficulty_of (300001 / 10000) = ''MEDIUM - Moderate effort needed''"
    using threshold_bands [of "300001 / 10000"] by simp
  have 3: "difficulty_of 60 = ''MEDIUM - Moderate effort needed''"
    using threshold_bands [of 60] by simp
  have 4: "difficulty_of 85 = ''STRONG - Significant effort required''"
    using threshold_bands [of 85] by simp
  have 5: "difficulty_of (850001 / 10000) = ''DOMINANT - Very difficult to outrank''"
    using threshold_bands [of "850001 / 10000"] by simp
  have 6: "verdict_of 30 = (''LOW COMPETITION - Excellent opportunity'', ''1-3'')"
    using threshold_bands [of 30] by simp
  have 7: "verdict_of (300001 / 10000)
      = (''MEDIUM COMPETITION - Good opportunity with quality content'', ''3-5'')"
    using threshold_bands [of "300001 / 10000"] by simp
  from 1 2 3 4 5 6 7 show ?thesis by blast
qed

text \<open>
  Claim C7. With own metrics all zero and the single competitor of the scenario (50
  first positions, traffic value 20000, 3000 keywords) at SERP position 1, the fallback
  denominators give the ratios 0.5, 2 and 0.6, the weighted score 97, and the assessment
  lists that competitor with strength score 97 and the DOMINANT label.
\<close>

theorem zero_denominator_scenario:
  "extract_your_metrics example_own = \<lparr> your_pos_1 = 0, your_etv = 0, your_keywords = 0 \<rparr>
   \<and> pos_1_ratio 0 50 = 1 / 2
   \<and> etv_ratio 0 20000 = 2
   \<and> keywords_ratio 0 3000 = 3 / 5
   \<and> weighted_score (extract_your_metrics example_own)
        [''pos_1'' \<mapsto> 50, ''etv'' \<mapsto> 20000, ''keywords'' \<mapsto> 3000] = 97
   \<and> competitor_analysis
        (calculate_competition_assessment w example_own scenario_dataset scenario_serp)
      = [\<lparr> domain = ''g.example'', position = 1, pos_1 = 50, etv = 20000,
            keywords_count = 3000, strength_score = 97,
            difficulty = ''DOMINANT - Very difficult to outrank'' \<rparr>]"
proof -
  have p: "pos_1_ratio 0 50 = 1 / 2" by (simp add: pos_1_ratio_def)
  have e: "etv_ratio 0 20000 = 2" by (simp add: etv_ratio_def)
  have k: "keywords_ratio 0 3000 = 3 / 5" by (simp add: keywords_ratio_def)
  have raw: "weighted_score \<lparr> your_pos_1 = 0, your_etv = 0, your_keywords = 0 \<rparr>
      [''pos_1'' \<mapsto> 50, ''etv'' \<mapsto> 20000, ''keywords'' \<mapsto> 3000] = 97"
    by (simp add: weighted_score_def dict_get_def or_default_def p e k)
  have stored: "round1 97 = 97"
    by (simp add: round1_def round_half_even_def Let_def)
  have label: "difficulty_of 97 = ''DOMINANT - Very difficult to outrank''"
    by (simp add: difficulty_of_def)
  have "scored_competitors example_own scenario_dataset scenario_serp
      = [\<lparr> domain = ''g.example'', position = 1, pos_1 = 50, etv = 20000,
            keywords_count = 3000, strength_score = 97,
            difficulty = ''DOMINANT - Very difficult to outrank'' \<rparr>]"
    by (simp add: scored_competitors_eq example_your scenario_serp_def serp_entries_def
        scenario_dataset_def analyze_competitor_def competitor_of_def Let_def raw stored label
        dict_get_def or_default_def)
  then have "competitor_analysis
        (calculate_competition_assessment w example_own scenario_dataset scenario_serp)
      = [\<lparr> domain = ''g.example'', position = 1, pos_1 = 50, etv = 20000,
            keywords_count = 3000, strength_score = 97,
            difficulty = ''DOMINANT - Very difficult to outrank'' \<rparr>]"
    by (simp add: competitor_analysis_eq)
  with example_your p e k raw show ?thesis by simp
qed

text \<open>
  Claim C9. An entry whose domain is missing, empty or not a key of the authority dataset
  yields no competitor. The assessment of a page that contains such an entry has the same
  competitor list and overall score as the assessment of the page without it; the list
  has one entry per matched entry of the page, and each of its entries has a non-empty
  domain that is a key of the dataset and differs from the domain of the passed-over
  entry. The assessment is the value of a total function: nothing is raised.
\<close>

theorem unmatched_entry_excluded:
  assumes "r_domain r = None \<or> r_domain r = Some [] \<or> (\<exists>d. r_domain r = Some d \<and> ds d = None)"
  shows "analyze_competitor your ds r = None
    \<and> competitor_analysis
        (calculate_competition_assessment w ym ds \<lparr> results = Some (pre @ r # post) \<rparr>)
      = competitor_analysis
        (calculate_competition_assessment w ym ds \<lparr> results = Some (pre @ post) \<rparr>)
    \<and> overall_score
        (calculate_competition_assessment w ym ds \<lparr> results = Some (pre @ r # post) \<rparr>)
      = overall_score
        (calculate_competition_assessment w ym ds \<lparr> results = Some (pre @ post) \<rparr>)
    \<and> length (competitor_analysis
        (calculate_competition_assessment w ym ds \<lparr> results = Some (pre @ r # post) \<rparr>))
      = length (filter (has_metrics ds) (pre @ post))
    \<and> (\<forall>c \<in> set (competitor_analysis
          (calculate_competition_assessment w ym ds \<lparr> results = Some (pre @ r # post) \<rparr>)).
          domain c \<noteq> [] \<and> ds (domain c) \<noteq> None \<and> r_domain r \<noteq> Some (domain c))"
proof -
  let ?with = "\<lparr> results = Some (pre @ r # post) \<rparr>"
  let ?without = "\<lparr> results = Some (pre @ post) \<rparr>"
  have none: "analyze_competitor y ds r = None" for y
    using assms by (auto simp: analyze_competitor_def split: option.splits)
  have sc: "scored_competitors ym ds ?with = scored_competitors ym ds ?without"
    by (simp add: scored_competitors_eq serp_entries_def map_filter_skip [of "analyze_competitor (extract_your_metrics ym) ds" r, OF none])
  then have ca: "competitor_analysis (calculate_competition_assessment w ym ds ?with)
      = competitor_analysis (calculate_competition_assessment w ym ds ?without)"
    by (simp add: competitor_analysis_eq)
  then have os: "overall_score (calculate_competition_assessment w ym ds ?with)
      = overall_score (calculate_competition_assessment w ym ds ?without)"
    by (simp add: overall_score_eq)
  have len: "length (competitor_analysis (calculate_competition_assessment w ym ds ?with))
      = length (filter (has_metrics ds) (pre @ post))"
    unfolding ca
    by (simp add: competitor_analysis_eq scored_competitors_eq length_map_filter_analyze
        serp_entries_def)
  have each: "domain c \<noteq> [] \<and> ds (domain c) \<noteq> None \<and> r_domain r \<noteq> Some (domain c)"
    if "c \<in> set (competitor_analysis (calculate_competition_assessment w ym ds ?with))" for c
  proof -
    from that have "c \<in> set (List.map_filter (analyze_competitor (extract_your_metrics ym) ds)
        (serp_entries ?with))"
      by (simp add: competitor_analysis_eq scored_competitors_eq)
    then obtain e where "analyze_competitor (extract_your_metrics ym) ds e = Some c"
      using in_map_filterD by fastforce
    then obtain ms where "domain c \<noteq> []" "ds (domain c) = Some ms"
      using analyze_competitor_SomeD by blast
    with assms show ?thesis by auto
  qed
  from none [of your] ca os len each show ?thesis by blast
qed

theorem unmatched_entry_excluded_witness:
  "example_dataset ''c.example'' = None
   \<and> length (competitor_analysis
        (calculate_competition_assessment example_web example_own example_dataset example_serp)) = 6
   \<and> ''c.example'' \<notin> domain ` set (competitor_analysis
        (calculate_competition_assessment example_web example_own example_dataset example_serp))"
proof -
  let ?r = "\<lparr> r_position = Some 3, r_title = Some ''Down'', r_url = Some ''https://c.example/'',
           r_domain = Some ''c.example'' \<rparr>"
  let ?pre = "take 2 (serp_entries example_serp)"
  let ?post = "drop 3 (serp_entries example_serp)"
  have absent: "example_dataset ''c.example'' = None"
    by (simp add: example_dataset_def)
  then have h: "r_domain ?r = None \<or> r_domain ?r = Some []
      \<or> (\<exists>d. r_domain ?r = Some d \<and> example_dataset d = None)"
    by simp
  have split: "\<lparr> results = Some (?pre @ ?r # ?post) \<rparr> = example_serp"
    by (simp add: example_serp_def serp_entries_def)
  have six: "length (filter (has_metrics example_dataset) (?pre @ ?post)) = 6"
    by (simp add: has_metrics_def example_serp_def serp_entries_def example_dataset_def)
  note t = unmatched_entry_excluded [OF h, of "extract_your_metrics example_own" example_web
      example_own ?pre ?post, unfolded split]
  from t have "length (competitor_analysis
        (calculate_competition_assessment example_web example_own example_dataset example_serp))
      = length (filter (has_metrics example_dataset) (?pre @ ?post))"
    by blast
  with six have len: "length (competitor_analysis
        (calculate_competition_assessment example_web example_own example_dataset example_serp)) = 6"
    by simp
  from t have "\<forall>c \<in> set (competitor_analysis
        (calculate_competition_assessment example_web example_own example_dataset example_serp)).
      r_domain ?r \<noteq> Some (domain c)"
    by blast
  then have "''c.example'' \<notin> domain ` set (competitor_analysis
        (calculate_competition_assessment example_web example_own example_dataset example_serp))"
    by auto
  with absent len show ?thesis by blast
qed

text \<open>
  Claim C10. The strength score stored for a competitor is its weighted score rounded to
  one decimal place, for every competitor of the returned list. The overall score is the
  mean of these stored, rounded scores over the first five entries (0 for an empty list)
  and is itself rounded to one decimal place in the returned assessment. So the returned
  overall score can differ from the mean of the unrounded scores: a single competitor with
  the weighted score 0.03 is stored with the score 0, and the overall score is 0.
\<close>

theorem stored_scores_rounded:
  "strength_score (competitor_of your d p ms) = round1 (weighted_score your ms)
   \<and> (\<forall>c \<in> set (competitor_analysis (calculate_competition_assessment w ym ds s)).
        \<exists>cm. ds (domain c) = Some cm
          \<and> strength_score c = round1 (weighted_score (extract_your_metrics ym) cm))
   \<and> overall_score_of ca
      = (if ca = [] then 0 else mean (map strength_score (take (min 5 (length ca)) ca)))
   \<and> overall_score (calculate_competition_assessment w ym ds s)
      = round1 (overall_score_of
          (competitor_analysis (calculate_competition_assessment w ym ds s)))
   \<and> weighted_score (extract_your_metrics example_own) [''etv'' \<mapsto> 10] = 3 / 100
   \<and> map strength_score (competitor_analysis
        (calculate_competition_assessment w example_own faint_dataset scenario_serp)) = [0]
   \<and> overall_score (calculate_competition_assessment w example_own faint_dataset scenario_serp)
      = 0
   \<and> overall_score (calculate_competition_assessment w example_own faint_dataset scenario_serp)
      \<noteq> mean [weighted_score (extract_your_metrics example_own) [''etv'' \<mapsto> 10]]"
proof -
  have stored: "strength_score (competitor_of y d' p' cm) = round1 (weighted_score y cm)"
    for y d' p' cm
    by (simp add: competitor_of_def Let_def)
  have each: "\<exists>cm. ds (domain c) = Some cm
      \<and> strength_score c = round1 (weighted_score (extract_your_metrics ym) cm)"
    if "c \<in> set (competitor_analysis (calculate_competition_assessment w ym ds s))" for c
  proof -
    from that have "c \<in> set (List.map_filter (analyze_competitor (extract_your_metrics ym) ds)
        (serp_entries s))"
      by (simp add: competitor_analysis_eq scored_competitors_eq)
    then obtain e where "analyze_competitor (extract_your_metrics ym) ds e = Some c"
      using in_map_filterD by fastforce
    then obtain cm where "ds (domain c) = Some cm"
      and "c = competitor_of (extract_your_metrics ym) (domain c) (or_default (r_position e) 999) cm"
      using analyze_competitor_SomeD by blast
    then show ?thesis using stored by metis
  qed
  have raw: "weighted_score (extract_your_metrics example_own) [''etv'' \<mapsto> 10] = 3 / 100"
    by (simp add: example_your weighted_score_def pos_1_ratio_def etv_ratio_def
        keywords_ratio_def dict_get_def or_default_def)
  have zero: "round1 (3 / 100) = 0"
    by (simp add: round1_def round_half_even_def Let_def floor_rat_numeral)
  have "scored_competitors example_own faint_dataset scenario_serp
      = [competitor_of (extract_your_metrics example_own) ''g.example'' 1 [''etv'' \<mapsto> 10]]"
    by (simp add: scored_competitors_eq scenario_serp_def serp_entries_def faint_dataset_def
        analyze_competitor_def or_default_def)
  then have ca: "competitor_analysis
        (calculate_competition_assessment w example_own faint_dataset scenario_serp)
      = [competitor_of (extract_your_metrics example_own) ''g.example'' 1 [''etv'' \<mapsto> 10]]"
    by (simp add: competitor_analysis_eq)
  have faint: "map strength_score (competitor_analysis
        (calculate_competition_assessment w example_own faint_dataset scenario_serp)) = [0]"
    by (simp add: ca stored raw zero)
  have r0: "round1 0 = 0" by (simp add: round1_def round_half_even_def Let_def)
  have "overall_score_of (competitor_analysis
        (calculate_competition_assessment w example_own faint_dataset scenario_serp)) = 0"
    by (simp add: ca overall_score_of_def stored raw zero)
  then have reported:
    "overall_score (calculate_competition_assessment w example_own faint_dataset scenario_serp) = 0"
    by (simp add: overall_score_eq r0)
  have differ:
    "overall_score (calculate_competition_assessment w example_own faint_dataset scenario_serp)
      \<noteq> mean [weighted_score (extract_your_metrics example_own) [''etv'' \<mapsto> 10]]"
    by (simp add: reported raw mean_def)
  from stored [of your d p ms] each overall_score_of_mean [of ca] overall_score_eq [of w ym ds s]
    raw faint reported differ
  show ?thesis by blast
qed

theorem stored_scores_rounded_witness:
  "weighted_score (extract_your_metrics example_own) [''pos_1'' \<mapsto> 2, ''etv'' \<mapsto> 60] = 59 / 50
   \<and> strength_score (competitor_of (extract_your_metrics example_own) ''d.example'' 4
        [''pos_1'' \<mapsto> 2, ''etv'' \<mapsto> 60]) = 6 / 5
   \<and> overall_score
        (calculate_competition_assessment example_web example_own example_dataset example_serp)
      = 201 / 10
   \<and> mean [1 / 2, 1, 1, 6 / 5, 97] = 1007 / 50
   \<and> mean [1 / 2, 103 / 100, 1, 59 / 50, 97] = 10071 / 500"
proof -
  let ?ms = "[''pos_1'' \<mapsto> 2, ''etv'' \<mapsto> 60] :: metrics"
  let ?a = "calculate_competition_assessment example_web example_own example_dataset example_serp"
  note t = stored_scores_rounded [of "extract_your_metrics example_own" "''d.example''" 4 ?ms
      example_web example_own example_dataset example_serp "competitor_analysis ?a"]
  have raw: "weighted_score (extract_your_metrics example_own) ?ms = 59 / 50"
    by (simp add: example_your weighted_score_def pos_1_ratio_def etv_ratio_def
        keywords_ratio_def dict_get_def or_default_def)
  have r: "round1 (59 / 50) = 6 / 5"
    by (simp add: round1_def round_half_even_def Let_def floor_rat_numeral)
  from t have "strength_score (competitor_of (extract_your_metrics example_own) ''d.example'' 4 ?ms)
      = round1 (weighted_score (extract_your_metrics example_own) ?ms)"
    by blast
  then have stored: "strength_score
      (competitor_of (extract_your_metrics example_own) ''d.example'' 4 ?ms) = 6 / 5"
    by (simp add: raw r)
  from t have "overall_score ?a = round1 (overall_score_of (competitor_analysis ?a))"
    by blast
  moreover from t have "overall_score_of (competitor_analysis ?a)
      = (if competitor_analysis ?a = [] then 0
         else mean (map strength_score
           (take (min 5 (length (competitor_analysis ?a))) (competitor_analysis ?a))))"
    by blast
  ultimately have "overall_score ?a = round1 (mean [1 / 2, 1, 1, 6 / 5, 97])"
    by (simp add: example_analysis)
  then have rep: "overall_score ?a = 201 / 10"
    by (simp add: mean_def round1_def round_half_even_def Let_def floor_rat_numeral)
  have m1: "mean [1 / 2, 1, 1, 6 / 5, 97] = 1007 / 50" by (simp add: mean_def)
  have m2: "mean [1 / 2, 103 / 100, 1, 59 / 50, 97] = 10071 / 500" by (simp add: mean_def)
  from raw stored rep m1 m2 show ?thesis by blast
qed

text \<open>
  Claim C8. On an empty result page (an empty list of results, or no results key at all)
  the estimator returns the hardcoded default profile, and the assessment, which embeds
  that profile, has an empty competitor list and the overall score 0. Both are values of
  total functions: nothing is raised.
\<close>

theorem empty_serp_defaults:
  assumes "serp_entries s = []"
  shows "estimate_content_length w s
      = \<lparr> average = 3000, median = 3000, min_words = 1500, max_words = 5000,
          recommended_min = 3000, recommended_max = 4000, detailed_estimates = [] \<rparr>
    \<and> competitor_analysis (calculate_competition_assessment w your ds s) = []
    \<and> overall_score (calculate_competition_assessment w your ds s) = 0
    \<and> content_length_analysis (calculate_competition_assessment w your ds s)
      = estimate_content_length w s"
proof -
  have "estimate_content_length w s = calculate_statistics [] []"
    using assms by (simp add: estimate_content_length_def)
  then have prof: "estimate_content_length w s
      = \<lparr> average = 3000, median = 3000, min_words = 1500, max_words = 5000,
          recommended_min = 3000, recommended_max = 4000, detailed_estimates = [] \<rparr>"
    by simp
  have none: "scored_competitors your ds s = []"
    using assms by (simp add: scored_competitors_def)
  have comp: "competitor_analysis (calculate_competition_assessment w your ds s) = []"
    using none by (simp add: calculate_competition_assessment_def Let_def)
  have "overall_score_of [] = 0" by (simp add: overall_score_of_def)
  moreover have "round1 0 = 0" by (simp add: round1_def round_half_even_def)
  ultimately have score: "overall_score (calculate_competition_assessment w your ds s) = 0"
    using none by (simp add: calculate_competition_assessment_def Let_def)
  have cl: "content_length_analysis (calculate_competition_assessment w your ds s)
      = estimate_content_length w s"
    by (simp add: calculate_competition_assessment_def Let_def)
  from prof comp score cl show ?thesis by blast
qed

theorem empty_serp_defaults_witness:
  "serp_entries \<lparr> results = Some [] \<rparr> = []
   \<and> serp_entries \<lparr> results = None \<rparr> = []
   \<and> average (estimate_content_length example_web \<lparr> results = Some [] \<rparr>) = 3000
   \<and> recommended_max (estimate_content_length example_web \<lparr> results = None \<rparr>) = 4000
   \<and> competitor_analysis
        (calculate_competition_assessment example_web Map.empty Map.empty \<lparr> results = Some [] \<rparr>) = []
   \<and> overall_score
        (calculate_competition_assessment example_web Map.empty Map.empty \<lparr> results = None \<rparr>) = 0"
proof -
  have a: "serp_entries \<lparr> results = Some [] \<rparr> = []" by (simp add: serp_entries_def)
  have b: "serp_entries \<lparr> results = None \<rparr> = []" by (simp add: serp_entries_def)
  note ta = empty_serp_defaults [OF a, of example_web Map.empty Map.empty]
  note tb = empty_serp_defaults [OF b, of example_web Map.empty Map.empty]
  from ta have 1: "average (estimate_content_length example_web \<lparr> results = Some [] \<rparr>) = 3000"
    by simp
  from tb have 2: "recommended_max (estimate_content_length example_web \<lparr> results = None \<rparr>) = 4000"
    by simp
  from a b 1 2 ta tb show ?thesis by blast
qed

end
